theory Spec2Isabelle
  imports Complex_Main "HOL-Library.Multiset" "HOL-Library.Sublist"
begin

section \<open>Earthquake Visualizer: the MapView component\<close>

text \<open>
  The repository holds one stateful component, \<^verbatim>\<open>MapView\<close>, in three variants:
  \<^verbatim>\<open>src/components/MapView.jsx\<close>, which is the one \<^verbatim>\<open>App.jsx\<close> imports, and two
  further variants in the unnamed source file: a responsive one (lines 1-208) and one
  without a sidebar toggle (from line 209). The three share \<^verbatim>\<open>FlyToLocation\<close>,
  \<^verbatim>\<open>fetchEarthquakes\<close> (up to the wording of the failure message) and both colour
  expressions. They differ in the click handler of a list entry and in an early return
  for an empty collection. Line numbers refer to \<^verbatim>\<open>MapView.jsx\<close> unless the unnamed
  source is named.

  The model is that of \<^verbatim>\<open>MapView.jsx\<close>; of the variants it has the responsive click
  handler and the render with the third early return.
\<close>

subsection \<open>JavaScript values of the feed\<close>

text \<open>
  \<^verbatim>\<open>properties.mag\<close> of a feature is a JSON number, JSON \<^verbatim>\<open>null\<close>, or absent
  (\<^verbatim>\<open>undefined\<close> after destructuring). A JSON number is a finite double, which is a
  rational number; comparing it with the literals 6, 4 and 2 is exact.
\<close>

datatype jsval = Undefined | Null | Num real

text \<open>\<^verbatim>\<open>ToNumber\<close>: \<^verbatim>\<open>null\<close> is 0, \<^verbatim>\<open>undefined\<close> is NaN (here \<open>None\<close>).\<close>

fun ToNumber :: "jsval \<Rightarrow> real option" where
  "ToNumber Undefined = None"
| "ToNumber Null = Some 0"
| "ToNumber (Num r) = Some r"

text \<open>\<^verbatim>\<open>v >= k\<close> for a numeric literal \<open>k\<close>: false as soon as one side is NaN.\<close>

definition js_ge :: "jsval \<Rightarrow> real \<Rightarrow> bool" where
  "js_ge v k = (case ToNumber v of None \<Rightarrow> False | Some x \<Rightarrow> k \<le> x)"

datatype js_error = TypeError

text \<open>
  \<^verbatim>\<open>mag.toFixed(1)\<close>: reading the property \<^verbatim>\<open>toFixed\<close> of \<^verbatim>\<open>null\<close> or
  \<^verbatim>\<open>undefined\<close> throws a TypeError. On a number the built-in returns a string; the
  model keeps the number and the digit count it formats.
\<close>

fun toFixed :: "jsval \<Rightarrow> nat \<Rightarrow> js_error + (real \<times> nat)" where
  "toFixed Undefined d = Inl TypeError"
| "toFixed Null d = Inl TypeError"
| "toFixed (Num r) d = Inr (r, d)"

subsection \<open>Colour of a magnitude\<close>

text \<open>The marker colour (\<^verbatim>\<open>MapView.jsx\<close> lines 174-175).\<close>

definition marker_color :: "jsval \<Rightarrow> string" where
  "marker_color mag =
     (if js_ge mag 6 then ''red''
      else if js_ge mag 4 then ''orange''
      else if js_ge mag 2 then ''yellow''
      else ''green'')"

text \<open>The colour class of a list entry (\<^verbatim>\<open>MapView.jsx\<close> lines 111-116).\<close>

definition list_color :: "jsval \<Rightarrow> string" where
  "list_color mag =
     (if js_ge mag 6 then ''text-red-600''
      else if js_ge mag 4 then ''text-orange-500''
      else ''text-green-600'')"

text \<open>
  The specification's wording of the classification, for comparison with the two
  colour expressions of the source: tiers by the thresholds 6.0, 4.0 and 2.0, and one
  colour per tier.
\<close>

datatype tier = minor | light | moderate | severe

definition spec_classify :: "real \<Rightarrow> tier" where
  "spec_classify m =
     (if 6 \<le> m then severe else if 4 \<le> m then moderate else if 2 \<le> m then light else minor)"

fun spec_tier_color :: "tier \<Rightarrow> string" where
  "spec_tier_color severe = ''red''"
| "spec_tier_color moderate = ''orange''"
| "spec_tier_color light = ''yellow''"
| "spec_tier_color minor = ''green''"

subsection \<open>Features and the sort of the feed\<close>

text \<open>
  A GeoJSON feature as the component reads it: \<^verbatim>\<open>id\<close>,
  \<^verbatim>\<open>geometry.coordinates = [lon, lat, ...]\<close> and
  \<^verbatim>\<open>properties = {mag, place, time}\<close>, the time in epoch milliseconds (an integer).
  Apart from the magnitude, the fields are taken to be present and of their type.
\<close>

record feature =
  fid :: string
  lon :: real
  lat :: real
  mag :: jsval
  place :: string
  time :: int

text \<open>The comparator \<^verbatim>\<open>(a, b) => b.properties.time - a.properties.time\<close>.\<close>

definition compare_time :: "feature \<Rightarrow> feature \<Rightarrow> int" where
  "compare_time a b = time b - time a"

text \<open>
  \<^verbatim>\<open>Array.prototype.sort\<close> with a comparator: the language standard requires a
  stable sort, so for a consistent comparator the result is the one computed by
  insertion from the right: \<open>x\<close> goes before the first \<open>y\<close> with \<open>cmp x y \<le> 0\<close>.
\<close>

fun sort_insert :: "('a \<Rightarrow> 'a \<Rightarrow> int) \<Rightarrow> 'a \<Rightarrow> 'a list \<Rightarrow> 'a list" where
  "sort_insert cmp x [] = [x]"
| "sort_insert cmp x (y # ys) =
     (if cmp x y \<le> 0 then x # y # ys else y # sort_insert cmp x ys)"

definition Array_sort :: "('a \<Rightarrow> 'a \<Rightarrow> int) \<Rightarrow> 'a list \<Rightarrow> 'a list" where
  "Array_sort cmp xs = foldr (sort_insert cmp) xs []"

text \<open>
  \<^verbatim>\<open>Array.prototype.slice(start, end)\<close>: a negative index counts from the end, both
  indices are clamped to the length, and the result is a new array.
\<close>

definition Array_slice :: "int \<Rightarrow> int \<Rightarrow> 'a list \<Rightarrow> 'a list" where
  "Array_slice start fin xs =
     (let len = int (length xs);
          k = (if start < 0 then max (len + start) 0 else min start len);
          final = (if fin < 0 then max (len + fin) 0 else min fin len)
      in take (nat (final - k)) (drop (nat k) xs))"

text \<open>\<^verbatim>\<open>Array.prototype.map\<close> with a callback that may throw: the first throw ends the map.\<close>

fun Array_map :: "('a \<Rightarrow> js_error + 'b) \<Rightarrow> 'a list \<Rightarrow> js_error + 'b list" where
  "Array_map f [] = Inr []"
| "Array_map f (x # xs) =
     (case f x of
        Inl e \<Rightarrow> Inl e
      | Inr y \<Rightarrow> (case Array_map f xs of Inl e \<Rightarrow> Inl e | Inr ys \<Rightarrow> Inr (y # ys)))"

subsection \<open>The component's state\<close>

text \<open>
  \<^verbatim>\<open>setSelectedCoords([lat, lon])\<close> stores a fresh array. React compares effect
  dependencies with \<^verbatim>\<open>Object.is\<close>, which on arrays is object identity, so an array
  is modelled with its identity \<open>ref\<close> beside its contents.
\<close>

record arr =
  ref :: nat
  items :: "real \<times> real"

definition Object_is :: "arr option \<Rightarrow> arr option \<Rightarrow> bool" where
  "Object_is a b =
     (case a of
        None \<Rightarrow> (case b of None \<Rightarrow> True | Some y \<Rightarrow> False)
      | Some x \<Rightarrow> (case b of None \<Rightarrow> False | Some y \<Rightarrow> ref x = ref y))"

text \<open>The five \<^verbatim>\<open>useState\<close> cells of \<^verbatim>\<open>MapView\<close> and their initial values (lines 25-29).\<close>

record state =
  earthquakes :: "feature list"
  loading :: bool
  error :: string
  selectedCoords :: "arr option"
  sidebarOpen :: bool

definition initial_state :: state where
  "initial_state =
     \<lparr>earthquakes = [], loading = True, error = [], selectedCoords = None, sidebarOpen = False\<rparr>"

text \<open>A handler's effect on the cells is the sequence of setter calls it makes.\<close>

datatype setter =
    setEarthquakes "feature list"
  | setLoading bool
  | setError string
  | setSelectedCoords "arr option"
  | setSidebarOpen bool

fun apply_setter :: "setter \<Rightarrow> state \<Rightarrow> state" where
  "apply_setter (setEarthquakes v) s = s\<lparr>earthquakes := v\<rparr>"
| "apply_setter (setLoading v) s = s\<lparr>loading := v\<rparr>"
| "apply_setter (setError v) s = s\<lparr>error := v\<rparr>"
| "apply_setter (setSelectedCoords v) s = s\<lparr>selectedCoords := v\<rparr>"
| "apply_setter (setSidebarOpen v) s = s\<lparr>sidebarOpen := v\<rparr>"

definition apply_setters :: "setter list \<Rightarrow> state \<Rightarrow> state" where
  "apply_setters ss s = fold apply_setter ss s"

fun is_setSelectedCoords :: "setter \<Rightarrow> bool" where
  "is_setSelectedCoords (setSelectedCoords v) = True"
| "is_setSelectedCoords other = False"

subsection \<open>fetchEarthquakes\<close>

text \<open>
  What the request can come back with: \<^verbatim>\<open>fetch\<close> rejects (transport failure), or it
  resolves with a status and a body; the body is not JSON (\<^verbatim>\<open>res.json()\<close> rejects),
  or it decodes to a value on which \<^verbatim>\<open>data.features.sort\<close> throws (no \<^verbatim>\<open>features\<close>
  array), or it decodes to a document with a \<^verbatim>\<open>features\<close> array.
\<close>

datatype body = NotJson | NoFeatures | Features "feature list"

datatype response = Rejected | Response nat body

text \<open>\<^verbatim>\<open>res.ok\<close>: the status is in the range 200-299.\<close>

definition ok :: "nat \<Rightarrow> bool" where
  "ok status = (200 \<le> status \<and> status \<le> 299)"

definition feed_url :: string where
  "feed_url = ''https://earthquake.usgs.gov/earthquakes/feed/v1.0/summary/all_day.geojson''"

text \<open>The message of the catch block; its first two code points are written as UTF-8 bytes.\<close>

definition failure_message :: string where
  "failure_message =
     [CHR 0xE2, CHR 0x9A, CHR 0xA0, CHR 0xEF, CHR 0xB8, CHR 0x8F]
       @ '' Failed to fetch earthquake data.''"

text \<open>Before the first \<^verbatim>\<open>await\<close>: \<^verbatim>\<open>setLoading(true)\<close>, then the request is issued.\<close>

definition fetchEarthquakes_start :: "setter list" where
  "fetchEarthquakes_start = [setLoading True]"

text \<open>The rest of the \<^verbatim>\<open>try\<close> block once the request has settled; \<open>Inl\<close> is a throw.\<close>

fun fetch_try :: "response \<Rightarrow> unit + setter list" where
  "fetch_try Rejected = Inl ()"
| "fetch_try (Response status b) =
     (if \<not> ok status then Inl ()
      else (case b of
              NotJson \<Rightarrow> Inl ()
            | NoFeatures \<Rightarrow> Inl ()
            | Features fs \<Rightarrow> Inr [setEarthquakes (Array_sort compare_time fs), setError []]))"

text \<open>\<^verbatim>\<open>try\<close>, \<^verbatim>\<open>catch\<close> and \<^verbatim>\<open>finally\<close> of lines 32-48.\<close>

definition fetchEarthquakes_settle :: "response \<Rightarrow> setter list" where
  "fetchEarthquakes_settle r =
     (case fetch_try r of Inr ss \<Rightarrow> ss | Inl u \<Rightarrow> [setError failure_message])
       @ [setLoading False]"

subsection \<open>Click handlers\<close>

text \<open>The list entry's \<^verbatim>\<open>onClick\<close> in \<^verbatim>\<open>MapView.jsx\<close> (lines 120-123).\<close>

definition li_onClick :: "nat \<Rightarrow> feature \<Rightarrow> setter list" where
  "li_onClick fresh eq =
     [setSelectedCoords (Some \<lparr>ref = fresh, items = (lat eq, lon eq)\<rparr>), setSidebarOpen False]"

text \<open>The same handler in the responsive variant (unnamed source, lines 133-136).\<close>

definition li_onClick_responsive :: "nat \<Rightarrow> nat \<Rightarrow> feature \<Rightarrow> setter list" where
  "li_onClick_responsive innerWidth fresh eq =
     setSelectedCoords (Some \<lparr>ref = fresh, items = (lat eq, lon eq)\<rparr>)
       # (if innerWidth < 768 then [setSidebarOpen False] else [])"

text \<open>The toggle button's \<^verbatim>\<open>onClick\<close> (line 84).\<close>

definition toggle_onClick :: "state \<Rightarrow> setter list" where
  "toggle_onClick s = [setSidebarOpen (\<not> sidebarOpen s)]"

subsection \<open>Rendering\<close>

record list_item =
  item_key :: string
  item_color :: string
  item_mag :: "real \<times> nat"
  item_place :: string
  item_time :: int

record marker =
  marker_key :: string
  marker_position :: "real \<times> real"
  marker_fill :: string
  popup_place :: string
  popup_mag :: "real \<times> nat"
  popup_time :: int

text \<open>
  What \<^verbatim>\<open>MapView\<close> returns: the loading indicator, the error message with its retry
  button, the "No earthquake data found." notice (the variants of the unnamed source
  only), or the main layout: the sidebar flag, the list entries, the markers and the
  \<^verbatim>\<open>coordinates\<close> prop of \<^verbatim>\<open>FlyToLocation\<close>.
\<close>

datatype view =
    LoadingView
  | ErrorView string
  | NoDataView
  | MainView bool "list_item list" "marker list" "arr option"

definition render_li :: "feature \<Rightarrow> js_error + list_item" where
  "render_li eq =
     (case toFixed (mag eq) 1 of
        Inl e \<Rightarrow> Inl e
      | Inr txt \<Rightarrow>
          Inr \<lparr>item_key = fid eq, item_color = list_color (mag eq), item_mag = txt,
               item_place = place eq, item_time = time eq\<rparr>)"

definition render_marker :: "feature \<Rightarrow> js_error + marker" where
  "render_marker eq =
     (case toFixed (mag eq) 1 of
        Inl e \<Rightarrow> Inl e
      | Inr txt \<Rightarrow>
          Inr \<lparr>marker_key = fid eq, marker_position = (lat eq, lon eq),
               marker_fill = marker_color (mag eq), popup_place = place eq,
               popup_mag = txt, popup_time = time eq\<rparr>)"

text \<open>The main layout (lines 79-195): the first ten entries in the list, every event on the map.\<close>

definition render_main :: "state \<Rightarrow> js_error + view" where
  "render_main s =
     (case Array_map render_li (Array_slice 0 10 (earthquakes s)) of
        Inl e \<Rightarrow> Inl e
      | Inr lis \<Rightarrow>
          (case Array_map render_marker (earthquakes s) of
             Inl e \<Rightarrow> Inl e
           | Inr ms \<Rightarrow> Inr (MainView (sidebarOpen s) lis ms (selectedCoords s))))"

text \<open>\<^verbatim>\<open>MapView.jsx\<close>: two early returns (lines 57-77), then the main layout.\<close>

definition MapView_render :: "state \<Rightarrow> js_error + view" where
  "MapView_render s =
     (if loading s then Inr LoadingView
      else if error s \<noteq> [] then Inr (ErrorView (error s))
      else render_main s)"

text \<open>The variants of the unnamed source: a third early return (lines 82-87 and 286-291).\<close>

definition MapView_render_unnamed :: "state \<Rightarrow> js_error + view" where
  "MapView_render_unnamed s =
     (if loading s then Inr LoadingView
      else if error s \<noteq> [] then Inr (ErrorView (error s))
      else if length (earthquakes s) = 0 then Inr NoDataView
      else render_main s)"

text \<open>
  The sidebar's transform classes (lines 91-92): \<^verbatim>\<open>translate-x-0\<close> when the cell is
  true, \<^verbatim>\<open>-translate-x-full md:translate-x-0\<close> when it is false. The panel is also
  \<^verbatim>\<open>md:static\<close> ("always visible on desktop", line 89).
\<close>

definition aside_classes :: "bool \<Rightarrow> string list" where
  "aside_classes sb =
     (if sb then [''translate-x-0''] else [''-translate-x-full'', ''md:translate-x-0''])"

text \<open>
  Whether the panel is on screen at a viewport width: a class with the prefix
  \<^verbatim>\<open>md:\<close> applies from 768 pixels on and then overrides the unprefixed one.
\<close>

definition panel_expanded :: "nat \<Rightarrow> bool \<Rightarrow> bool" where
  "panel_expanded width sb =
     (if 768 \<le> width \<and> ''md:translate-x-0'' \<in> set (aside_classes sb) then True
      else ''translate-x-0'' \<in> set (aside_classes sb))"

subsection \<open>FlyToLocation and the mounted view\<close>

datatype effect = HttpGet string | flyTo "real \<times> real" nat real

text \<open>
  \<^verbatim>\<open>FlyToLocation\<close> (lines 16-22): an effect with the dependency list
  \<^verbatim>\<open>[coordinates]\<close>. It runs after the component's first render (\<open>prev = None\<close>)
  and after every render whose \<^verbatim>\<open>coordinates\<close> is not \<^verbatim>\<open>Object.is\<close>-equal to the one
  of the render before; its body calls \<^verbatim>\<open>map.flyTo\<close> when \<^verbatim>\<open>coordinates\<close> is not null.
\<close>

definition FlyToLocation :: "arr option option \<Rightarrow> arr option \<Rightarrow> effect list" where
  "FlyToLocation prev coordinates =
     (if (case prev of None \<Rightarrow> True | Some p \<Rightarrow> \<not> Object_is p coordinates)
      then (case coordinates of None \<Rightarrow> [] | Some a \<Rightarrow> [flyTo (items a) 5 1.5])
      else [])"

text \<open>
  The running page: the cells, the viewport width, the next unused array identity, the
  number of requests in flight, whether a render has thrown (React then unmounts the
  whole tree), the dependency of \<^verbatim>\<open>FlyToLocation\<close>'s last run (\<open>None\<close> while no map is
  mounted), the map's centre and zoom (\<open>None\<close> while no map is mounted), and the
  requests and camera commands issued so far. The camera is the one the component
  commands: the view the map is created with and the target of each \<^verbatim>\<open>flyTo\<close>. The
  user's own pan and zoom gestures on the map are not part of the component.
\<close>

record world =
  cells :: state
  innerWidth :: nat
  next_ref :: nat
  pending :: nat
  crashed :: bool
  fly_deps :: "arr option option"
  camera :: "((real \<times> real) \<times> nat) option"
  trace :: "effect list"

text \<open>\<^verbatim>\<open>MapContainer\<close> is created with \<^verbatim>\<open>center={[20, 0]}\<close> and \<^verbatim>\<open>zoom={2}\<close> (lines 157-159).\<close>

definition default_camera :: "(real \<times> real) \<times> nat" where
  "default_camera = ((20, 0), 2)"

fun move :: "effect \<Rightarrow> (real \<times> real) \<times> nat \<Rightarrow> (real \<times> real) \<times> nat" where
  "move (flyTo c z d) cam = (c, z)"
| "move (HttpGet u) cam = cam"

text \<open>
  One render and commit of the current cells. In the main layout the map is mounted
  (created at the default camera if it was not there) and \<^verbatim>\<open>FlyToLocation\<close>'s effect
  is run against its previous dependency; in every other view the map subtree is
  unmounted; a throwing render unmounts everything.
\<close>

definition commit :: "world \<Rightarrow> world" where
  "commit w =
     (case MapView_render (cells w) of
        Inl e \<Rightarrow> w\<lparr>crashed := True, fly_deps := None, camera := None\<rparr>
      | Inr v \<Rightarrow>
          (case v of
             MainView sb lis ms coordinates \<Rightarrow>
               (let fx = FlyToLocation (fly_deps w) coordinates;
                    cam = (case camera w of None \<Rightarrow> default_camera | Some c \<Rightarrow> c)
                in w\<lparr>fly_deps := Some coordinates, camera := Some (fold move fx cam),
                      trace := trace w @ fx\<rparr>)
           | LoadingView \<Rightarrow> w\<lparr>fly_deps := None, camera := None\<rparr>
           | ErrorView m \<Rightarrow> w\<lparr>fly_deps := None, camera := None\<rparr>
           | NoDataView \<Rightarrow> w\<lparr>fly_deps := None, camera := None\<rparr>))"

text \<open>The synchronous part of \<^verbatim>\<open>fetchEarthquakes\<close>: the setter call and the request.\<close>

definition start_fetch :: "world \<Rightarrow> world" where
  "start_fetch w =
     w\<lparr>cells := apply_setters fetchEarthquakes_start (cells w),
       pending := Suc (pending w),
       trace := trace w @ [HttpGet feed_url]\<rparr>"

text \<open>
  The first render and the mount effect (lines 51-55), at a given viewport width. The
  effect's timer only dispatches a \<^verbatim>\<open>resize\<close> event to the window and touches no cell.
\<close>

definition mount :: "nat \<Rightarrow> world" where
  "mount width =
     commit (start_fetch
       \<lparr>cells = initial_state, innerWidth = width, next_ref = 0, pending = 0,
        crashed = False, fly_deps = None, camera = None, trace = []\<rparr>)"

text \<open>
  What can happen next: a request settles, the user presses the retry button (error
  view), the refresh button or the toggle button (main layout; the toggle button is
  \<^verbatim>\<open>md:hidden\<close>, so only below 768 pixels), clicks the \<open>i\<close>-th list entry, or resizes
  the window.
\<close>

datatype event = Settle response | Retry | Refresh | Toggle | Select nat | Resize nat

fun is_main :: "js_error + view \<Rightarrow> bool" where
  "is_main (Inr (MainView sb lis ms c)) = True"
| "is_main other = False"

fun is_error_view :: "js_error + view \<Rightarrow> bool" where
  "is_error_view (Inr (ErrorView m)) = True"
| "is_error_view other = False"

fun handle :: "event \<Rightarrow> world \<Rightarrow> world" where
  "handle (Settle r) w =
     (if 0 < pending w
      then w\<lparr>cells := apply_setters (fetchEarthquakes_settle r) (cells w),
             pending := pending w - 1\<rparr>
      else w)"
| "handle Retry w =
     (if is_error_view (MapView_render (cells w)) then start_fetch w else w)"
| "handle Refresh w =
     (if is_main (MapView_render (cells w)) then start_fetch w else w)"
| "handle Toggle w =
     (if is_main (MapView_render (cells w)) \<and> innerWidth w < 768
      then w\<lparr>cells := apply_setters (toggle_onClick (cells w)) (cells w)\<rparr>
      else w)"
| "handle (Select i) w =
     (if is_main (MapView_render (cells w))
         \<and> i < length (Array_slice 0 10 (earthquakes (cells w)))
      then w\<lparr>cells := apply_setters
                 (li_onClick (next_ref w) (Array_slice 0 10 (earthquakes (cells w)) ! i))
                 (cells w),
             next_ref := Suc (next_ref w)\<rparr>
      else w)"
| "handle (Resize n) w = w\<lparr>innerWidth := n\<rparr>"

definition step :: "event \<Rightarrow> world \<Rightarrow> world" where
  "step e w = (if crashed w then w else commit (handle e w))"

definition run :: "event list \<Rightarrow> world \<Rightarrow> world" where
  "run es w = fold step es w"

fun is_flyTo :: "effect \<Rightarrow> bool" where
  "is_flyTo (flyTo c z d) = True"
| "is_flyTo (HttpGet u) = False"

fun is_Select :: "event \<Rightarrow> bool" where
  "is_Select (Select i) = True"
| "is_Select other = False"

fun is_Resize :: "event \<Rightarrow> bool" where
  "is_Resize (Resize n) = True"
| "is_Resize other = False"

subsection \<open>Auxiliary notions for the proofs\<close>

text \<open>The ways a request fails: no response or a status outside 200-299; a body that does not decode.\<close>

fun network_failure :: "response \<Rightarrow> bool" where
  "network_failure Rejected = True"
| "network_failure (Response status b) = (\<not> ok status)"

fun undecodable :: "response \<Rightarrow> bool" where
  "undecodable Rejected = False"
| "undecodable (Response status NotJson) = ok status"
| "undecodable (Response status NoFeatures) = ok status"
| "undecodable (Response status (Features fs)) = False"

text \<open>Every array identity held by the page is below the next unused one.\<close>

fun ref_below :: "nat \<Rightarrow> arr option \<Rightarrow> bool" where
  "ref_below n None = True"
| "ref_below n (Some a) = (ref a < n)"

fun deps_below :: "nat \<Rightarrow> arr option option \<Rightarrow> bool" where
  "deps_below n None = True"
| "deps_below n (Some p) = ref_below n p"

definition refs_fresh :: "world \<Rightarrow> bool" where
  "refs_fresh w =
     (ref_below (next_ref w) (selectedCoords (cells w)) \<and> deps_below (next_ref w) (fly_deps w))"

text \<open>No camera command has been issued and the map, if mounted, shows the default view.\<close>

definition quiet :: "world \<Rightarrow> bool" where
  "quiet w =
     (filter is_flyTo (trace w) = []
      \<and> (camera w = None \<or> camera w = Some default_camera))"

text \<open>
  The feed of the specification's scenario: magnitudes 6.5, 3.2 and 1.0 with the
  timestamps 100, 300 and 200. It instantiates the theorems below.
\<close>

definition scenario_feed :: "feature list" where
  "scenario_feed =
     [\<lparr>fid = ''a'', lon = 10, lat = 1, mag = Num 6.5, place = ''A'', time = 100\<rparr>,
      \<lparr>fid = ''b'', lon = 20, lat = 2, mag = Num 3.2, place = ''B'', time = 300\<rparr>,
      \<lparr>fid = ''c'', lon = 30, lat = 3, mag = Num 1.0, place = ''C'', time = 200\<rparr>]"

text \<open>A feed of one event without a magnitude (\<^verbatim>\<open>"mag": null\<close>).\<close>

definition null_mag_feed :: "feature list" where
  "null_mag_feed =
     [\<lparr>fid = ''n'', lon = 40, lat = 4, mag = Null, place = ''N'', time = 400\<rparr>]"

text \<open>A feed with two events of the same timestamp, in the order \<open>x\<close>, \<open>y\<close>, \<open>z\<close>.\<close>

definition tie_feed :: "feature list" where
  "tie_feed =
     [\<lparr>fid = ''x'', lon = 10, lat = 1, mag = Num 2, place = ''X'', time = 100\<rparr>,
      \<lparr>fid = ''y'', lon = 20, lat = 2, mag = Num 4, place = ''Y'', time = 300\<rparr>,
      \<lparr>fid = ''z'', lon = 30, lat = 3, mag = Num 6, place = ''Z'', time = 100\<rparr>]"

section \<open>Properties\<close>

lemmas eval_defs = run_def step_def mount_def commit_def start_fetch_def initial_state_def
  fetchEarthquakes_start_def fetchEarthquakes_settle_def apply_setters_def MapView_render_def
  render_main_def render_li_def render_marker_def Array_slice_def Array_sort_def
  compare_time_def ok_def li_onClick_def toggle_onClick_def FlyToLocation_def Object_is_def
  scenario_feed_def null_mag_feed_def marker_color_def list_color_def js_ge_def
  default_camera_def Let_def

subsection \<open>Colours\<close>

lemma marker_color_spec: "marker_color (Num m) = spec_tier_color (spec_classify m)"
  by (simp add: marker_color_def js_ge_def spec_classify_def)

lemma list_color_num:
  "list_color (Num m) =
     (if 6 \<le> m then ''text-red-600'' else if 4 \<le> m then ''text-orange-500''
      else ''text-green-600'')"
  by (simp add: list_color_def js_ge_def)

lemma classification_total:
  "marker_color v \<in> {''red'', ''orange'', ''yellow'', ''green''}
   \<and> list_color v \<in> {''text-red-600'', ''text-orange-500'', ''text-green-600''}"
  by (simp add: marker_color_def list_color_def)

subsection \<open>The sort\<close>

lemma mset_sort_insert: "mset (sort_insert cmp x ys) = add_mset x (mset ys)"
  by (induction ys) auto

lemma set_sort_insert: "set (sort_insert cmp x ys) = insert x (set ys)"
  by (induction ys) auto

lemma desc_sort_insert:
  "sorted_wrt (\<lambda>a b. time b \<le> time a) ys \<Longrightarrow>
   sorted_wrt (\<lambda>a b. time b \<le> time a) (sort_insert compare_time x ys)"
  by (induction ys) (auto simp: compare_time_def set_sort_insert)

text \<open>An inserted event lands in front of the events of its own timestamp.\<close>

lemma filter_sort_insert:
  "sorted_wrt (\<lambda>a b. time b \<le> time a) ys \<Longrightarrow>
   filter (\<lambda>e. time e = t) (sort_insert compare_time x ys) =
     (if time x = t then x # filter (\<lambda>e. time e = t) ys else filter (\<lambda>e. time e = t) ys)"
  by (induction ys) (auto simp: compare_time_def)

lemma mset_Array_sort: "mset (Array_sort cmp xs) = mset xs"
  by (induction xs) (auto simp: Array_sort_def mset_sort_insert)

lemma desc_Array_sort: "sorted_wrt (\<lambda>a b. time b \<le> time a) (Array_sort compare_time xs)"
  by (induction xs) (auto simp: Array_sort_def desc_sort_insert)

lemma stable_Array_sort:
  "filter (\<lambda>e. time e = t) (Array_sort compare_time xs) = filter (\<lambda>e. time e = t) xs"
proof (induction xs)
  case Nil
  show ?case by (simp add: Array_sort_def)
next
  case (Cons x xs)
  have "Array_sort compare_time (x # xs) = sort_insert compare_time x (Array_sort compare_time xs)"
    by (simp add: Array_sort_def)
  then show ?case
    using Cons.IH desc_Array_sort [of xs] by (simp add: filter_sort_insert)
qed

lemma Array_slice_take: "Array_slice 0 (int n) xs = take n xs"
  by (simp add: Array_slice_def Let_def min_def)

lemma recent_first:
  assumes "a \<in> set (take n (Array_sort compare_time fs))"
    and "b \<in> set (drop n (Array_sort compare_time fs))"
  shows "time b \<le> time a"
proof -
  have "sorted_wrt (\<lambda>a b. time b \<le> time a)
          (take n (Array_sort compare_time fs) @ drop n (Array_sort compare_time fs))"
    using desc_Array_sort [of fs] by simp
  with assms show ?thesis unfolding sorted_wrt_append by blast
qed

subsection \<open>fetchEarthquakes\<close>

lemma settle_failure:
  "network_failure r \<or> undecodable r \<Longrightarrow>
   fetchEarthquakes_settle r = [setError failure_message, setLoading False]"
proof (cases r)
  case Rejected
  then show ?thesis by (simp add: fetchEarthquakes_settle_def)
next
  case (Response status b)
  assume "network_failure r \<or> undecodable r"
  with Response show ?thesis
    by (cases b) (auto simp: fetchEarthquakes_settle_def)
qed

lemma settle_success:
  "ok status \<Longrightarrow>
   fetchEarthquakes_settle (Response status (Features fs)) =
     [setEarthquakes (Array_sort compare_time fs), setError [], setLoading False]"
  by (simp add: fetchEarthquakes_settle_def)

lemma failure_message_nonempty: "failure_message \<noteq> []"
  by (simp add: failure_message_def)

lemma selected_settle:
  "selectedCoords (apply_setters (fetchEarthquakes_settle r) s) = selectedCoords s"
proof (cases r)
  case Rejected
  then show ?thesis by (simp add: fetchEarthquakes_settle_def apply_setters_def)
next
  case (Response status b)
  then show ?thesis
    by (cases b) (simp_all add: fetchEarthquakes_settle_def apply_setters_def)
qed

subsection \<open>Rendering\<close>

lemma main_view_props:
  "MapView_render s = Inr (MainView sb lis ms c) \<Longrightarrow>
   c = selectedCoords s \<and> sb = sidebarOpen s \<and> \<not> loading s \<and> error s = []"
  by (auto simp: MapView_render_def render_main_def split: if_splits sum.splits)

lemma is_main_D: "is_main r \<Longrightarrow> \<exists>sb lis ms c. r = Inr (MainView sb lis ms c)"
  by (erule is_main.elims) simp

lemma render_after_click:
  "MapView_render s = Inr (MainView sb lis ms c) \<Longrightarrow>
   MapView_render (s\<lparr>selectedCoords := x, sidebarOpen := y\<rparr>) = Inr (MainView y lis ms x)"
  by (auto simp: MapView_render_def render_main_def split: if_splits sum.splits)

lemma Array_map_keys:
  assumes "\<And>x y. f x = Inr y \<Longrightarrow> g y = h x"
  shows "Array_map f xs = Inr ys \<Longrightarrow> map g ys = map h xs"
proof (induction xs arbitrary: ys)
  case Nil
  then show ?case by simp
next
  case (Cons x xs)
  then show ?case using assms by (auto split: sum.splits)
qed

lemma render_li_key: "render_li x = Inr y \<Longrightarrow> item_key y = fid x"
  by (auto simp: render_li_def split: sum.splits)

lemma render_marker_key: "render_marker x = Inr y \<Longrightarrow> marker_key y = fid x"
  by (auto simp: render_marker_def split: sum.splits)

lemma main_view_contents:
  assumes "MapView_render s = Inr (MainView sb lis ms c)"
  shows "map item_key lis = map fid (take 10 (earthquakes s))"
    and "map marker_key ms = map fid (earthquakes s)"
proof -
  from assms have
    l: "Array_map render_li (Array_slice 0 10 (earthquakes s)) = Inr lis" and
    m: "Array_map render_marker (earthquakes s) = Inr ms"
    by (auto simp: MapView_render_def render_main_def split: if_splits sum.splits)
  have "Array_slice 0 10 (earthquakes s) = take 10 (earthquakes s)"
    using Array_slice_take [of 10 "earthquakes s"] by simp
  with l show "map item_key lis = map fid (take 10 (earthquakes s))"
    using Array_map_keys [of render_li item_key fid, OF render_li_key] by simp
  from m show "map marker_key ms = map fid (earthquakes s)"
    using Array_map_keys [of render_marker marker_key fid, OF render_marker_key] by simp
qed

lemma cells_commit: "cells (commit w) = cells w"
  by (simp add: commit_def Let_def split: sum.splits view.splits)

lemma FlyToLocation_null: "FlyToLocation prev None = []"
  by (simp add: FlyToLocation_def)

lemma run_snoc: "run (es @ [e]) w = step e (run es w)"
  by (simp add: run_def)

subsection \<open>The selection is never cleared\<close>

lemma selected_handle:
  "\<not> is_Select e \<Longrightarrow> selectedCoords (cells (handle e w)) = selectedCoords (cells w)"
proof (cases e)
  case (Settle r)
  then show ?thesis by (simp add: selected_settle)
qed (simp_all add: start_fetch_def fetchEarthquakes_start_def toggle_onClick_def
       apply_setters_def)

lemma selected_handle_kept:
  assumes "selectedCoords (cells w) = Some a"
  shows "\<exists>b. selectedCoords (cells (handle e w)) = Some b"
proof (cases e)
  case (Select i)
  with assms show ?thesis by (simp add: li_onClick_def apply_setters_def)
next
  case (Settle r)
  with assms show ?thesis by (simp add: selected_settle)
qed (use assms in \<open>simp_all add: start_fetch_def fetchEarthquakes_start_def toggle_onClick_def
       apply_setters_def\<close>)

lemma selected_step_other:
  "\<not> is_Select e \<Longrightarrow> selectedCoords (cells (step e w)) = selectedCoords (cells w)"
  by (simp add: step_def cells_commit selected_handle)

lemma selected_step_kept:
  assumes "selectedCoords (cells w) = Some a"
  shows "\<exists>b. selectedCoords (cells (step e w)) = Some b"
  using assms selected_handle_kept [OF assms, of e] by (simp add: step_def cells_commit)

subsection \<open>No camera command without a selection\<close>

lemma quiet_commit:
  assumes sel: "selectedCoords (cells w) = None" and q: "quiet w"
  shows "quiet (commit w)"
proof (cases "MapView_render (cells w)")
  case (Inl e)
  with q show ?thesis by (simp add: commit_def quiet_def)
next
  case (Inr v)
  show ?thesis
  proof (cases v)
    case (MainView sb lis ms c)
    have "c = None" using main_view_props [of "cells w" sb lis ms c] sel Inr MainView by simp
    then have "commit w = w\<lparr>fly_deps := Some None,
        camera := Some (case camera w of None \<Rightarrow> default_camera | Some c \<Rightarrow> c)\<rparr>"
      using Inr MainView by (simp add: commit_def FlyToLocation_null)
    with q show ?thesis by (auto simp: quiet_def)
  next
    case LoadingView
    with Inr q show ?thesis by (simp add: commit_def quiet_def)
  next
    case (ErrorView m)
    with Inr q show ?thesis by (simp add: commit_def quiet_def)
  next
    case NoDataView
    with Inr q show ?thesis by (simp add: commit_def quiet_def)
  qed
qed

lemma quiet_handle:
  "quiet w \<Longrightarrow> quiet (handle e w)"
  by (cases e) (simp_all add: quiet_def start_fetch_def)

lemma quiet_step:
  assumes "selectedCoords (cells (step e w)) = None" and "quiet w"
  shows "quiet (step e w)"
proof (cases "crashed w")
  case True
  then show ?thesis using assms by (simp add: step_def)
next
  case False
  from assms(1) False have "selectedCoords (cells (handle e w)) = None"
    by (simp add: step_def cells_commit)
  then show ?thesis
    using False assms(2) by (simp add: step_def quiet_commit quiet_handle)
qed

lemma quiet_mount: "quiet (mount width)"
  by (simp add: mount_def commit_def start_fetch_def quiet_def initial_state_def
        fetchEarthquakes_start_def apply_setters_def MapView_render_def)

lemma quiet_run:
  "selectedCoords (cells (run es (mount width))) = None \<Longrightarrow> quiet (run es (mount width))"
proof (induction es rule: rev_induct)
  case Nil
  show ?case by (simp add: run_def quiet_mount)
next
  case (snoc e es)
  have "selectedCoords (cells (run es (mount width))) = None"
  proof (rule ccontr)
    assume "selectedCoords (cells (run es (mount width))) \<noteq> None"
    then obtain a where "selectedCoords (cells (run es (mount width))) = Some a"
      by auto
    then have "\<exists>b. selectedCoords (cells (step e (run es (mount width)))) = Some b"
      by (rule selected_step_kept)
    with snoc.prems show False by (simp add: run_snoc)
  qed
  with snoc show ?case by (simp add: run_snoc quiet_step)
qed

subsection \<open>Array identities stay fresh\<close>

lemma ref_below_Suc: "ref_below n p \<Longrightarrow> ref_below (Suc n) p"
  by (cases p) simp_all

lemma deps_below_Suc: "deps_below n d \<Longrightarrow> deps_below (Suc n) d"
  by (cases d) (simp_all add: ref_below_Suc)

lemma refs_fresh_mount: "refs_fresh (mount width)"
  by (simp add: mount_def commit_def start_fetch_def refs_fresh_def initial_state_def
        fetchEarthquakes_start_def apply_setters_def MapView_render_def)

lemma refs_fresh_handle:
  assumes "refs_fresh w"
  shows "refs_fresh (handle e w)"
proof (cases e)
  case (Settle r)
  with assms show ?thesis by (simp add: refs_fresh_def selected_settle)
next
  case (Select i)
  with assms show ?thesis
    by (simp add: refs_fresh_def li_onClick_def apply_setters_def deps_below_Suc)
qed (use assms in \<open>simp_all add: refs_fresh_def start_fetch_def fetchEarthquakes_start_def
       toggle_onClick_def apply_setters_def\<close>)

lemma refs_fresh_commit:
  assumes "refs_fresh w"
  shows "refs_fresh (commit w)"
proof (cases "MapView_render (cells w)")
  case (Inl e)
  with assms show ?thesis by (simp add: commit_def refs_fresh_def)
next
  case (Inr v)
  show ?thesis
  proof (cases v)
    case (MainView sb lis ms c)
    have "c = selectedCoords (cells w)"
      using main_view_props [of "cells w" sb lis ms c] Inr MainView by simp
    with assms Inr MainView show ?thesis
      by (simp add: commit_def refs_fresh_def Let_def)
  next
    case LoadingView
    with Inr assms show ?thesis by (simp add: commit_def refs_fresh_def)
  next
    case (ErrorView m)
    with Inr assms show ?thesis by (simp add: commit_def refs_fresh_def)
  next
    case NoDataView
    with Inr assms show ?thesis by (simp add: commit_def refs_fresh_def)
  qed
qed

lemma refs_fresh_step: "refs_fresh w \<Longrightarrow> refs_fresh (step e w)"
  by (simp add: step_def refs_fresh_commit refs_fresh_handle)

lemma refs_fresh_run: "refs_fresh (run es (mount width))"
  by (induction es rule: rev_induct) (simp_all add: run_def refs_fresh_mount refs_fresh_step)

subsection \<open>One click on a list entry\<close>

lemma FlyToLocation_fresh:
  assumes "refs_fresh w"
  shows "FlyToLocation (fly_deps w) (Some \<lparr>ref = next_ref w, items = c\<rparr>) = [flyTo c 5 1.5]"
proof (cases "fly_deps w")
  case None
  then show ?thesis by (simp add: FlyToLocation_def)
next
  case (Some p)
  with assms show ?thesis
    by (cases p) (simp_all add: FlyToLocation_def refs_fresh_def Object_is_def)
qed

lemma select_step:
  assumes fresh: "refs_fresh w"
    and alive: "\<not> crashed w"
    and main: "is_main (MapView_render (cells w))"
    and i: "i < length (Array_slice 0 10 (earthquakes (cells w)))"
  shows "cells (step (Select i) w) =
           (cells w)\<lparr>selectedCoords :=
                Some \<lparr>ref = next_ref w,
                      items = (lat (Array_slice 0 10 (earthquakes (cells w)) ! i),
                               lon (Array_slice 0 10 (earthquakes (cells w)) ! i))\<rparr>,
              sidebarOpen := False\<rparr>"
    and "trace (step (Select i) w) =
           trace w @ [flyTo (lat (Array_slice 0 10 (earthquakes (cells w)) ! i),
                             lon (Array_slice 0 10 (earthquakes (cells w)) ! i)) 5 1.5]"
    and "camera (step (Select i) w) =
           Some ((lat (Array_slice 0 10 (earthquakes (cells w)) ! i),
                  lon (Array_slice 0 10 (earthquakes (cells w)) ! i)), 5)"
    and "\<not> crashed (step (Select i) w)"
    and "next_ref (step (Select i) w) = Suc (next_ref w)"
    and "is_main (MapView_render (cells (step (Select i) w)))"
proof -
  let ?eq = "Array_slice 0 10 (earthquakes (cells w)) ! i"
  let ?a = "\<lparr>ref = next_ref w, items = (lat ?eq, lon ?eq)\<rparr>"
  let ?s = "(cells w)\<lparr>selectedCoords := Some ?a, sidebarOpen := False\<rparr>"
  let ?h = "w\<lparr>cells := ?s, next_ref := Suc (next_ref w)\<rparr>"
  from main obtain sb lis ms c where r: "MapView_render (cells w) = Inr (MainView sb lis ms c)"
    using is_main_D by blast
  have h: "handle (Select i) w = ?h"
    using main i by (simp add: li_onClick_def apply_setters_def)
  have r': "MapView_render ?s = Inr (MainView False lis ms (Some ?a))"
    using r by (rule render_after_click)
  have fx: "FlyToLocation (fly_deps w) (Some ?a) = [flyTo (lat ?eq, lon ?eq) 5 1.5]"
    using fresh by (rule FlyToLocation_fresh)
  have c: "commit ?h =
      ?h\<lparr>fly_deps := Some (Some ?a), camera := Some ((lat ?eq, lon ?eq), 5),
         trace := trace w @ [flyTo (lat ?eq, lon ?eq) 5 1.5]\<rparr>"
    using r' fx by (simp add: commit_def)
  have st: "step (Select i) w = commit ?h"
    using alive h by (simp add: step_def)
  show "cells (step (Select i) w) = ?s" by (simp add: st c)
  show "trace (step (Select i) w) = trace w @ [flyTo (lat ?eq, lon ?eq) 5 1.5]"
    by (simp add: st c)
  show "camera (step (Select i) w) = Some ((lat ?eq, lon ?eq), 5)" by (simp add: st c)
  show "\<not> crashed (step (Select i) w)" using alive by (simp add: st c)
  show "next_ref (step (Select i) w) = Suc (next_ref w)" by (simp add: st c)
  show "is_main (MapView_render (cells (step (Select i) w)))"
    using r' by (simp add: st c)
qed

subsection \<open>The sidebar after a click on a list entry\<close>

lemma li_onClick_sidebar: "sidebarOpen (apply_setters (li_onClick fresh eq) s) = False"
  by (simp add: li_onClick_def apply_setters_def)

lemma li_onClick_responsive_sidebar:
  "sidebarOpen (apply_setters (li_onClick_responsive width fresh eq) s)
     = (if width < 768 then False else sidebarOpen s)"
  by (simp add: li_onClick_responsive_def apply_setters_def)

lemma panel_expanded_iff: "panel_expanded width sb = (sb \<or> 768 \<le> width)"
  by (simp add: panel_expanded_def aside_classes_def)

lemma innerWidth_commit: "innerWidth (commit w) = innerWidth w"
  by (simp add: commit_def Let_def split: sum.splits view.splits)

lemma sidebar_settle:
  "sidebarOpen (apply_setters (fetchEarthquakes_settle r) s) = sidebarOpen s"
proof (cases r)
  case Rejected
  then show ?thesis by (simp add: fetchEarthquakes_settle_def apply_setters_def)
next
  case (Response status b)
  then show ?thesis
    by (cases b) (simp_all add: fetchEarthquakes_settle_def apply_setters_def)
qed

lemma select_sidebar:
  assumes "\<not> crashed w" and "is_main (MapView_render (cells w))"
    and "i < length (Array_slice 0 10 (earthquakes (cells w)))"
  shows "\<not> sidebarOpen (cells (step (Select i) w))"
    and "innerWidth (step (Select i) w) = innerWidth w"
  using assms
  by (simp_all add: step_def cells_commit innerWidth_commit li_onClick_def apply_setters_def)

lemma wide_closed_handle:
  assumes "\<not> is_Resize e" and "768 \<le> innerWidth w" and "\<not> sidebarOpen (cells w)"
  shows "768 \<le> innerWidth (handle e w) \<and> \<not> sidebarOpen (cells (handle e w))"
proof (cases e)
  case (Settle r)
  with assms show ?thesis by (simp add: sidebar_settle)
next
  case (Select i)
  with assms show ?thesis by (simp add: li_onClick_def apply_setters_def)
next
  case (Resize n)
  with assms show ?thesis by simp
qed (use assms in \<open>simp_all add: start_fetch_def fetchEarthquakes_start_def apply_setters_def\<close>)

lemma wide_closed_step:
  assumes "\<not> is_Resize e" and "768 \<le> innerWidth w" and "\<not> sidebarOpen (cells w)"
  shows "768 \<le> innerWidth (step e w) \<and> \<not> sidebarOpen (cells (step e w))"
  using assms wide_closed_handle [OF assms]
  by (simp add: step_def cells_commit innerWidth_commit)

lemma wide_closed_mount:
  "innerWidth (mount width) = width \<and> \<not> sidebarOpen (cells (mount width))"
  by (simp add: mount_def cells_commit innerWidth_commit start_fetch_def
        fetchEarthquakes_start_def apply_setters_def initial_state_def)

lemma wide_closed_run:
  "768 \<le> width \<Longrightarrow> filter is_Resize es = [] \<Longrightarrow>
   768 \<le> innerWidth (run es (mount width)) \<and> \<not> sidebarOpen (cells (run es (mount width)))"
proof (induction es rule: rev_induct)
  case Nil
  then show ?case by (simp add: run_def wide_closed_mount)
next
  case (snoc e es)
  from snoc.prems have e: "\<not> is_Resize e" and es: "filter is_Resize es = []"
    by (auto split: if_splits)
  from snoc.IH [OF snoc.prems(1) es] wide_closed_step [OF e]
  show ?case by (simp add: run_snoc)
qed

section \<open>The claims\<close>

text \<open>
  C1. Classification and display are to be total in the magnitude: a null or undefined
  magnitude counts as the lowest tier and nothing throws. Evaluated on the code: both
  colour expressions give the green of the lowest tier for \<^verbatim>\<open>null\<close> and
  \<^verbatim>\<open>undefined\<close>, but \<^verbatim>\<open>mag.toFixed(1)\<close> throws a TypeError, so the render of a feed
  holding one event with a null magnitude throws and the page is lost.
\<close>

theorem null_magnitude_crashes_render:
  "marker_color Null = ''green'' \<and> list_color Null = ''text-green-600''
   \<and> marker_color Undefined = ''green'' \<and> list_color Undefined = ''text-green-600''
   \<and> toFixed Null 1 = Inl TypeError \<and> toFixed Undefined 1 = Inl TypeError
   \<and> MapView_render (cells (run [Settle (Response 200 (Features null_mag_feed))] (mount 1024)))
        = Inl TypeError
   \<and> crashed (run [Settle (Response 200 (Features null_mag_feed))] (mount 1024))"
  by (simp add: eval_defs)

text \<open>
  C2. Tier and colour are to follow the thresholds 6.0, 4.0 and 2.0 wherever a colour
  is derived, markers and list entries alike. Evaluated on the code at the magnitudes
  3.2 and 1.0: the marker colour separates them (yellow and green, as the thresholds
  and the legend say), the class of the list entry does not (green for both).
\<close>

theorem list_colour_ignores_threshold_two:
  "marker_color (Num 3.2) = ''yellow'' \<and> marker_color (Num 1.0) = ''green''
   \<and> spec_tier_color (spec_classify 3.2) = ''yellow''
   \<and> list_color (Num 3.2) = ''text-green-600'' \<and> list_color (Num 1.0) = ''text-green-600''"
  by (simp add: marker_color_def list_color_def js_ge_def spec_classify_def)

text \<open>
  C3. After a successful fetch the stored collection is the feed sorted by descending
  timestamp (no event is followed by a later one), it holds exactly the events of the
  feed, and events of equal timestamp keep the order they had in the feed.
\<close>

theorem ranked_descending_stable:
  assumes "ok status"
  shows "earthquakes (apply_setters (fetchEarthquakes_settle (Response status (Features fs))) s)
           = Array_sort compare_time fs
         \<and> sorted_wrt (\<lambda>a b. time b \<le> time a) (Array_sort compare_time fs)
         \<and> mset (Array_sort compare_time fs) = mset fs
         \<and> (\<forall>t. filter (\<lambda>e. time e = t) (Array_sort compare_time fs)
                = filter (\<lambda>e. time e = t) fs)"
  using assms
  by (simp add: settle_success apply_setters_def desc_Array_sort mset_Array_sort
        stable_Array_sort)

theorem ranked_descending_stable_witness:
  "ok 200
   \<and> map fid (earthquakes (apply_setters
        (fetchEarthquakes_settle (Response 200 (Features tie_feed))) initial_state))
      = [''y'', ''x'', ''z'']
   \<and> sorted_wrt (\<lambda>a b. time b \<le> time a) (Array_sort compare_time tie_feed)
   \<and> map fid (filter (\<lambda>e. time e = 100) (Array_sort compare_time tie_feed)) = [''x'', ''z'']
   \<and> map fid (Array_sort compare_time scenario_feed) = [''b'', ''c'', ''a'']"
proof -
  have h: "ok 200" by (simp add: ok_def)
  have t: "map fid (Array_sort compare_time tie_feed) = [''y'', ''x'', ''z'']"
    by (simp add: Array_sort_def compare_time_def tie_feed_def)
  have f: "map fid (filter (\<lambda>e. time e = 100) tie_feed) = [''x'', ''z'']"
    by (simp add: tie_feed_def)
  have s: "map fid (Array_sort compare_time scenario_feed) = [''b'', ''c'', ''a'']"
    by (simp add: Array_sort_def compare_time_def scenario_feed_def)
  from h t f s ranked_descending_stable [OF h, of tie_feed initial_state]
  show ?thesis by simp
qed

text \<open>
  C4. Taking the first \<open>n\<close> elements (\<^verbatim>\<open>slice(0, n)\<close>, \<open>n\<close> a count) returns at most
  \<open>min n (length xs)\<close> elements and exactly the prefix of that length; on the sorted
  collection no event left out is more recent than an event taken. Rendering leaves
  the cells as they are; the main layout lists the first ten events and puts a marker
  on the map for every event.
\<close>

theorem list_panel_prefix:
  "length (Array_slice 0 (int n) xs) \<le> min n (length xs)
   \<and> Array_slice 0 (int n) xs = take n xs
   \<and> prefix (Array_slice 0 (int n) xs) xs
   \<and> (\<forall>a \<in> set (Array_slice 0 (int n) (Array_sort compare_time fs)).
        \<forall>b \<in> set (drop n (Array_sort compare_time fs)). time b \<le> time a)
   \<and> cells (commit w) = cells w
   \<and> (MapView_render s = Inr (MainView sb lis ms c) \<longrightarrow>
        map item_key lis = map fid (take 10 (earthquakes s))
        \<and> length lis \<le> 10
        \<and> map marker_key ms = map fid (earthquakes s))"
proof -
  have t: "Array_slice 0 (int n) xs = take n xs" by (rule Array_slice_take)
  have p: "prefix (take n xs) xs" by (rule take_is_prefix)
  have r: "\<forall>a \<in> set (Array_slice 0 (int n) (Array_sort compare_time fs)).
        \<forall>b \<in> set (drop n (Array_sort compare_time fs)). time b \<le> time a"
    using recent_first by (simp add: Array_slice_take)
  have v: "MapView_render s = Inr (MainView sb lis ms c) \<longrightarrow>
        map item_key lis = map fid (take 10 (earthquakes s))
        \<and> length lis \<le> 10
        \<and> map marker_key ms = map fid (earthquakes s)"
  proof
    assume a: "MapView_render s = Inr (MainView sb lis ms c)"
    have k: "map item_key lis = map fid (take 10 (earthquakes s))"
      using a by (rule main_view_contents(1))
    then have "length lis = length (take 10 (earthquakes s))"
      using map_eq_imp_length_eq by blast
    then have "length lis \<le> 10" by simp
    with k main_view_contents(2) [OF a] show
      "map item_key lis = map fid (take 10 (earthquakes s)) \<and> length lis \<le> 10
       \<and> map marker_key ms = map fid (earthquakes s)" by simp
  qed
  from t p r v show ?thesis by (simp add: cells_commit)
qed

theorem list_panel_prefix_witness:
  "Array_slice 0 (int 2) scenario_feed = take 2 scenario_feed
   \<and> map time (Array_slice 0 (int 2) (Array_sort compare_time scenario_feed)) = [300, 200]
   \<and> map time (drop 2 (Array_sort compare_time scenario_feed)) = [100]
   \<and> (case MapView_render
              (cells (run [Settle (Response 200 (Features scenario_feed))] (mount 1024))) of
         Inl e \<Rightarrow> False
       | Inr v \<Rightarrow>
           (case v of
              MainView sb lis ms c \<Rightarrow>
                map item_key lis = [''b'', ''c'', ''a'']
                \<and> map marker_key ms = [''b'', ''c'', ''a'']
            | LoadingView \<Rightarrow> False
            | ErrorView m \<Rightarrow> False
            | NoDataView \<Rightarrow> False))"
proof -
  let ?s = "cells (run [Settle (Response 200 (Features scenario_feed))] (mount 1024))"
  obtain lis ms where r: "MapView_render ?s = Inr (MainView False lis ms None)"
    by (simp add: eval_defs)
  have e: "earthquakes ?s = Array_sort compare_time scenario_feed" by (simp add: eval_defs)
  have n: "map time (Array_slice 0 (int 2) (Array_sort compare_time scenario_feed)) = [300, 200]
     \<and> map time (drop 2 (Array_sort compare_time scenario_feed)) = [100]"
    by (simp add: eval_defs)
  have k: "map fid (Array_sort compare_time scenario_feed) = [''b'', ''c'', ''a'']"
    by (simp add: eval_defs)
  have k10: "map fid (take 10 (Array_sort compare_time scenario_feed)) = [''b'', ''c'', ''a'']"
    by (simp add: eval_defs)
  from r e n k k10 list_panel_prefix [of 2 scenario_feed scenario_feed _ ?s False lis ms None]
  show ?thesis by simp
qed

text \<open>
  C5, as stated: a selection from the list collapses the sidebar state on a narrow
  viewport and leaves the sidebar state unchanged on a wide one. The second half fails
  on the state cell: the sidebar is opened at a width of 500 pixels, the window is
  widened to 1024 pixels, and the click on the first list entry sets the cell from
  true to false.
\<close>

theorem wide_viewport_selection_counterexample:
  "768 \<le> innerWidth
      (run [Settle (Response 200 (Features scenario_feed)), Toggle, Resize 1024] (mount 500))
   \<and> sidebarOpen (cells
        (run [Settle (Response 200 (Features scenario_feed)), Toggle, Resize 1024] (mount 500)))
   \<and> \<not> sidebarOpen (cells (step (Select 0)
        (run [Settle (Response 200 (Features scenario_feed)), Toggle, Resize 1024] (mount 500))))"
  by (simp add: eval_defs)

text \<open>
  C5, as the code has it. A click on a list entry sets the sidebar cell to false at
  every width. Below 768 pixels the panel is then off screen. From 768 pixels on the
  panel is on screen before and after the click, whatever the cell holds, so nothing
  collapses there. On a page that was mounted at 768 pixels or more and never resized,
  the cell is false before the click and the click leaves it unchanged.
\<close>

theorem selection_sidebar_by_width:
  assumes alive: "\<not> crashed w"
    and main: "is_main (MapView_render (cells w))"
    and i: "i < length (Array_slice 0 10 (earthquakes (cells w)))"
  shows "\<not> sidebarOpen (cells (step (Select i) w))
     \<and> innerWidth (step (Select i) w) = innerWidth w
     \<and> (innerWidth w < 768 \<longrightarrow>
          \<not> panel_expanded (innerWidth w) (sidebarOpen (cells (step (Select i) w))))
     \<and> (768 \<le> innerWidth w \<longrightarrow>
          panel_expanded (innerWidth w) (sidebarOpen (cells w))
          \<and> panel_expanded (innerWidth w) (sidebarOpen (cells (step (Select i) w))))
     \<and> (768 \<le> width \<and> filter is_Resize es = [] \<longrightarrow>
          sidebarOpen (cells (step (Select j) (run es (mount width))))
            = sidebarOpen (cells (run es (mount width))))"
proof -
  note sel = select_sidebar [OF alive main i]
  have narrow: "innerWidth w < 768 \<longrightarrow>
      \<not> panel_expanded (innerWidth w) (sidebarOpen (cells (step (Select i) w)))"
    using sel(1) by (simp add: panel_expanded_iff)
  have wide: "768 \<le> innerWidth w \<longrightarrow>
      panel_expanded (innerWidth w) (sidebarOpen (cells w))
      \<and> panel_expanded (innerWidth w) (sidebarOpen (cells (step (Select i) w)))"
    by (simp add: panel_expanded_iff)
  have throughout: "768 \<le> width \<and> filter is_Resize es = [] \<longrightarrow>
      sidebarOpen (cells (step (Select j) (run es (mount width))))
        = sidebarOpen (cells (run es (mount width)))"
  proof
    assume a: "768 \<le> width \<and> filter is_Resize es = []"
    then have r: "768 \<le> innerWidth (run es (mount width))
        \<and> \<not> sidebarOpen (cells (run es (mount width)))"
      using wide_closed_run [of width es] by simp
    have "\<not> is_Resize (Select j)" by simp
    from wide_closed_step [OF this] r
    have "\<not> sidebarOpen (cells (step (Select j) (run es (mount width))))" by simp
    with r show "sidebarOpen (cells (step (Select j) (run es (mount width))))
        = sidebarOpen (cells (run es (mount width)))" by simp
  qed
  from sel narrow wide throughout show ?thesis by (simp only: simp_thms)
qed

theorem selection_sidebar_by_width_witness:
  "\<not> crashed (run [Settle (Response 200 (Features scenario_feed)), Toggle, Resize 1024] (mount 500))
   \<and> 768 \<le> innerWidth
        (run [Settle (Response 200 (Features scenario_feed)), Toggle, Resize 1024] (mount 500))
   \<and> panel_expanded 1024 (sidebarOpen (cells
        (run [Settle (Response 200 (Features scenario_feed)), Toggle, Resize 1024] (mount 500))))
   \<and> panel_expanded 1024 (sidebarOpen (cells (step (Select 0)
        (run [Settle (Response 200 (Features scenario_feed)), Toggle, Resize 1024] (mount 500)))))
   \<and> innerWidth (run [Settle (Response 200 (Features scenario_feed)), Toggle] (mount 500)) < 768
   \<and> sidebarOpen (cells (run [Settle (Response 200 (Features scenario_feed)), Toggle] (mount 500)))
   \<and> \<not> panel_expanded 500 (sidebarOpen (cells (step (Select 0)
        (run [Settle (Response 200 (Features scenario_feed)), Toggle] (mount 500)))))
   \<and> filter is_Resize [Settle (Response 200 (Features scenario_feed))] = []
   \<and> sidebarOpen (cells (step (Select 0)
        (run [Settle (Response 200 (Features scenario_feed))] (mount 1024)))) = False"
proof -
  let ?W = "run [Settle (Response 200 (Features scenario_feed)), Toggle, Resize 1024] (mount 500)"
  let ?N = "run [Settle (Response 200 (Features scenario_feed)), Toggle] (mount 500)"
  have a: "\<not> crashed ?W" and m: "is_main (MapView_render (cells ?W))"
    and i: "0 < length (Array_slice 0 10 (earthquakes (cells ?W)))"
    and w: "innerWidth ?W = 1024"
    by (simp_all add: eval_defs)
  have a': "\<not> crashed ?N" and m': "is_main (MapView_render (cells ?N))"
    and i': "0 < length (Array_slice 0 10 (earthquakes (cells ?N)))"
    and w': "innerWidth ?N = 500" and o': "sidebarOpen (cells ?N)"
    by (simp_all add: eval_defs)
  have f: "filter is_Resize [Settle (Response 200 (Features scenario_feed))] = []" by simp
  have c: "sidebarOpen (cells (run [Settle (Response 200 (Features scenario_feed))] (mount 1024)))
      = False"
    by (simp add: eval_defs)
  from selection_sidebar_by_width [OF a m i, of 1024 "[Settle (Response 200 (Features scenario_feed))]" 0]
       selection_sidebar_by_width [OF a' m' i', of 1024 "[]" 0]
       a w w' o' f c
  show ?thesis by (simp add: panel_expanded_iff)
qed

text \<open>
  C6. In every state the page can reach, a click on a list entry makes exactly one
  \<^verbatim>\<open>setSelectedCoords\<close> call, stores the coordinates of the entry in a fresh array and
  issues exactly one \<^verbatim>\<open>flyTo\<close> towards them; a second click on the same entry does
  the same again, with the next fresh array and one more \<^verbatim>\<open>flyTo\<close>.
\<close>

theorem selection_one_update_one_flyTo:
  assumes alive: "\<not> crashed (run es (mount width))"
    and main: "is_main (MapView_render (cells (run es (mount width))))"
    and i: "i < length (Array_slice 0 10 (earthquakes (cells (run es (mount width)))))"
  shows "(let w = run es (mount width);
              eq = Array_slice 0 10 (earthquakes (cells w)) ! i;
              w1 = step (Select i) w;
              w2 = step (Select i) w1
          in length (filter is_setSelectedCoords (li_onClick (next_ref w) eq)) = 1
           \<and> selectedCoords (cells w1) = Some \<lparr>ref = next_ref w, items = (lat eq, lon eq)\<rparr>
           \<and> trace w1 = trace w @ [flyTo (lat eq, lon eq) 5 1.5]
           \<and> camera w1 = Some ((lat eq, lon eq), 5)
           \<and> selectedCoords (cells w2)
                = Some \<lparr>ref = Suc (next_ref w), items = (lat eq, lon eq)\<rparr>
           \<and> trace w2 = trace w1 @ [flyTo (lat eq, lon eq) 5 1.5])"
proof -
  let ?w = "run es (mount width)"
  let ?eq = "Array_slice 0 10 (earthquakes (cells ?w)) ! i"
  let ?w1 = "step (Select i) ?w"
  have fresh: "refs_fresh ?w" by (rule refs_fresh_run)
  note first = select_step [OF fresh alive main i]
  have w1: "?w1 = run (es @ [Select i]) (mount width)" by (simp add: run_snoc)
  have fresh1: "refs_fresh ?w1" unfolding w1 by (rule refs_fresh_run)
  have quakes1: "earthquakes (cells ?w1) = earthquakes (cells ?w)"
    by (simp add: first(1))
  have i1: "i < length (Array_slice 0 10 (earthquakes (cells ?w1)))"
    using i by (simp only: quakes1)
  note second = select_step [OF fresh1 first(4) first(6) i1]
  have one: "length (filter is_setSelectedCoords (li_onClick (next_ref ?w) ?eq)) = 1"
    by (simp add: li_onClick_def)
  have s1: "selectedCoords (cells ?w1) = Some \<lparr>ref = next_ref ?w, items = (lat ?eq, lon ?eq)\<rparr>"
    by (simp add: first(1))
  have s2: "selectedCoords (cells (step (Select i) ?w1))
      = Some \<lparr>ref = Suc (next_ref ?w), items = (lat ?eq, lon ?eq)\<rparr>"
    by (simp add: second(1) first(5) quakes1)
  have t2: "trace (step (Select i) ?w1) = trace ?w1 @ [flyTo (lat ?eq, lon ?eq) 5 1.5]"
    using second(2) by (simp only: quakes1)
  from one s1 first(2) first(3) s2 t2 show ?thesis by (simp only: Let_def simp_thms)
qed

theorem selection_one_update_one_flyTo_witness:
  "\<not> crashed (run [Settle (Response 200 (Features scenario_feed))] (mount 1024))
   \<and> is_main (MapView_render (cells (run [Settle (Response 200 (Features scenario_feed))] (mount 1024))))
   \<and> 0 < length (Array_slice 0 10
           (earthquakes (cells (run [Settle (Response 200 (Features scenario_feed))] (mount 1024)))))
   \<and> trace (step (Select 0) (step (Select 0)
         (run [Settle (Response 200 (Features scenario_feed))] (mount 1024))))
       = [HttpGet feed_url, flyTo (2, 20) 5 1.5, flyTo (2, 20) 5 1.5]
   \<and> selectedCoords (cells (step (Select 0) (step (Select 0)
         (run [Settle (Response 200 (Features scenario_feed))] (mount 1024)))))
       = Some \<lparr>ref = 1, items = (2, 20)\<rparr>"
proof -
  let ?es = "[Settle (Response 200 (Features scenario_feed))]"
  have a: "\<not> crashed (run ?es (mount 1024))" by (simp add: eval_defs)
  have m: "is_main (MapView_render (cells (run ?es (mount 1024))))" by (simp add: eval_defs)
  have i: "0 < length (Array_slice 0 10 (earthquakes (cells (run ?es (mount 1024)))))"
    by (simp add: eval_defs)
  have e: "Array_slice 0 10 (earthquakes (cells (run ?es (mount 1024)))) ! 0
      = \<lparr>fid = ''b'', lon = 20, lat = 2, mag = Num 3.2, place = ''B'', time = 300\<rparr>"
    by (simp add: eval_defs)
  have t: "trace (run ?es (mount 1024)) = [HttpGet feed_url]"
    and n: "next_ref (run ?es (mount 1024)) = 0"
    by (simp_all add: eval_defs)
  from selection_one_update_one_flyTo [OF a m i] a m i show ?thesis
    by (simp add: Let_def e t n)
qed

text \<open>
  C7. When the request in flight fails by a transport error or a status outside
  200-299, the error view with the failure message is shown. The retry button issues
  the request again and shows the loading view. When that request succeeds, the cells
  hold the new sorted data, no error message and no loading flag, and the render takes
  the main layout.
\<close>

theorem retry_after_failure:
  assumes alive: "\<not> crashed w" and inflight: "0 < pending w"
    and fails: "network_failure r" and good: "ok status"
  shows "MapView_render (cells (step (Settle r) w)) = Inr (ErrorView failure_message)
    \<and> trace (step Retry (step (Settle r) w)) = trace w @ [HttpGet feed_url]
    \<and> MapView_render (cells (step Retry (step (Settle r) w))) = Inr LoadingView
    \<and> cells (step (Settle (Response status (Features fs))) (step Retry (step (Settle r) w)))
        = (cells w)\<lparr>earthquakes := Array_sort compare_time fs, loading := False, error := []\<rparr>
    \<and> MapView_render
          (cells (step (Settle (Response status (Features fs))) (step Retry (step (Settle r) w))))
        = render_main
          (cells (step (Settle (Response status (Features fs))) (step Retry (step (Settle r) w))))"
proof -
  let ?s1 = "(cells w)\<lparr>error := failure_message, loading := False\<rparr>"
  let ?h1 = "w\<lparr>cells := ?s1, pending := pending w - 1\<rparr>"
  let ?w1 = "?h1\<lparr>fly_deps := None, camera := None\<rparr>"
  have h1: "handle (Settle r) w = ?h1"
    using inflight settle_failure [of r] fails by (simp add: apply_setters_def)
  have r1: "MapView_render ?s1 = Inr (ErrorView failure_message)"
    by (simp add: MapView_render_def failure_message_nonempty)
  have w1: "step (Settle r) w = ?w1"
    using alive h1 r1 by (simp add: step_def commit_def)
  let ?s2 = "(cells w)\<lparr>error := failure_message, loading := True\<rparr>"
  let ?w2 = "?w1\<lparr>cells := ?s2, pending := Suc (pending w - 1),
               trace := trace w @ [HttpGet feed_url]\<rparr>"
  have h2: "handle Retry ?w1 = ?w2"
    using r1 by (simp add: start_fetch_def fetchEarthquakes_start_def apply_setters_def)
  have r2: "MapView_render ?s2 = Inr LoadingView"
    by (simp add: MapView_render_def)
  have w2: "step Retry ?w1 = ?w2"
    using alive h2 r2 by (simp add: step_def commit_def)
  let ?s3 = "(cells w)\<lparr>earthquakes := Array_sort compare_time fs, loading := False, error := []\<rparr>"
  have h3: "cells (handle (Settle (Response status (Features fs))) ?w2) = ?s3"
    using settle_success [OF good, of fs] by (simp add: apply_setters_def)
  have "\<not> crashed ?w2" using alive by simp
  then have w3: "cells (step (Settle (Response status (Features fs))) ?w2) = ?s3"
    using h3 by (simp only: step_def cells_commit if_False)
  have r3: "MapView_render ?s3 = render_main ?s3"
    by (simp add: MapView_render_def)
  show ?thesis
    unfolding w1 w2 w3 using r1 r2 r3 by simp
qed

theorem retry_after_failure_witness:
  "\<not> crashed (mount 1024) \<and> 0 < pending (mount 1024)
   \<and> network_failure (Response 503 NotJson) \<and> network_failure Rejected \<and> ok 200
   \<and> MapView_render (cells (step (Settle (Response 503 NotJson)) (mount 1024)))
        = Inr (ErrorView failure_message)
   \<and> trace (step Retry (step (Settle (Response 503 NotJson)) (mount 1024)))
        = [HttpGet feed_url, HttpGet feed_url]
   \<and> cells (step (Settle (Response 200 (Features scenario_feed)))
         (step Retry (step (Settle (Response 503 NotJson)) (mount 1024))))
        = \<lparr>earthquakes = Array_sort compare_time scenario_feed, loading = False, error = [],
           selectedCoords = None, sidebarOpen = False\<rparr>"
proof -
  have a: "\<not> crashed (mount 1024)" and p: "0 < pending (mount 1024)"
    by (simp_all add: eval_defs)
  have f: "network_failure (Response 503 NotJson)" by (simp add: ok_def)
  have g: "ok 200" by (simp add: ok_def)
  have t: "trace (mount 1024) = [HttpGet feed_url]"
    and c: "cells (mount 1024) = initial_state"
    by (simp_all add: eval_defs)
  from a p f g retry_after_failure [OF a p f g, of scenario_feed] t c
  show ?thesis by (simp add: initial_state_def)
qed

text \<open>
  C8. A successful fetch of an empty feed is to show an explicit "no data" notice in
  place of an empty list. Evaluated on the code: \<^verbatim>\<open>MapView.jsx\<close> renders the main
  layout with an empty list and no markers; the variants of the unnamed source return
  the notice view.
\<close>

theorem empty_feed_renders_empty_list:
  "MapView_render (cells (run [Settle (Response 200 (Features []))] (mount 1024)))
     = Inr (MainView False [] [] None)
   \<and> MapView_render_unnamed (cells (run [Settle (Response 200 (Features []))] (mount 1024)))
     = Inr NoDataView"
  by (simp add: eval_defs MapView_render_unnamed_def)

text \<open>
  C9. The selection is empty after mounting; no event other than a click on a list
  entry changes it, and no event at all empties it once it is set. In every state the
  page can reach with an empty selection, no \<^verbatim>\<open>flyTo\<close> has been issued and the map,
  if one is mounted, is at the default centre and zoom.
\<close>

theorem selection_persists:
  "selectedCoords (cells (mount width)) = None
   \<and> (\<not> is_Select e \<longrightarrow> selectedCoords (cells (step e w)) = selectedCoords (cells w))
   \<and> (selectedCoords (cells w) \<noteq> None \<longrightarrow> selectedCoords (cells (step e w)) \<noteq> None)
   \<and> (selectedCoords (cells (run es (mount width))) = None \<longrightarrow>
        filter is_flyTo (trace (run es (mount width))) = []
        \<and> (camera (run es (mount width)) = None
            \<or> camera (run es (mount width)) = Some default_camera))"
proof -
  have a: "selectedCoords (cells (mount width)) = None"
    by (simp add: mount_def cells_commit start_fetch_def fetchEarthquakes_start_def
          apply_setters_def initial_state_def)
  have b: "\<not> is_Select e \<longrightarrow> selectedCoords (cells (step e w)) = selectedCoords (cells w)"
    by (simp add: selected_step_other)
  have c: "selectedCoords (cells w) \<noteq> None \<longrightarrow> selectedCoords (cells (step e w)) \<noteq> None"
    using selected_step_kept [of w _ e] by auto
  have d: "selectedCoords (cells (run es (mount width))) = None \<longrightarrow>
        filter is_flyTo (trace (run es (mount width))) = []
        \<and> (camera (run es (mount width)) = None
            \<or> camera (run es (mount width)) = Some default_camera)"
    using quiet_run [of es width] by (simp add: quiet_def)
  from a b c d show ?thesis by (simp only: simp_thms)
qed

theorem selection_persists_witness:
  "\<not> is_Select Refresh
   \<and> selectedCoords (cells (run [Settle (Response 200 (Features scenario_feed)), Select 0] (mount 500)))
       = Some \<lparr>ref = 0, items = (2, 20)\<rparr>
   \<and> selectedCoords (cells (step Refresh
         (run [Settle (Response 200 (Features scenario_feed)), Select 0] (mount 500))))
       = Some \<lparr>ref = 0, items = (2, 20)\<rparr>
   \<and> selectedCoords (cells (run [Settle (Response 200 (Features scenario_feed)), Toggle, Refresh,
         Settle Rejected, Retry, Settle (Response 200 (Features scenario_feed))] (mount 500))) = None
   \<and> filter is_flyTo (trace (run [Settle (Response 200 (Features scenario_feed)), Toggle, Refresh,
         Settle Rejected, Retry, Settle (Response 200 (Features scenario_feed))] (mount 500))) = []
   \<and> camera (run [Settle (Response 200 (Features scenario_feed)), Toggle, Refresh,
         Settle Rejected, Retry, Settle (Response 200 (Features scenario_feed))] (mount 500))
       = Some default_camera"
proof -
  let ?w = "run [Settle (Response 200 (Features scenario_feed)), Select 0] (mount 500)"
  let ?es = "[Settle (Response 200 (Features scenario_feed)), Toggle, Refresh,
         Settle Rejected, Retry, Settle (Response 200 (Features scenario_feed))]"
  have a: "\<not> is_Select Refresh" by simp
  have b: "selectedCoords (cells ?w) = Some \<lparr>ref = 0, items = (2, 20)\<rparr>"
    by (simp add: eval_defs)
  have c: "selectedCoords (cells (run ?es (mount 500))) = None"
    by (simp add: eval_defs failure_message_def)
  have d: "camera (run ?es (mount 500)) = Some default_camera"
    by (simp add: eval_defs failure_message_def)
  from a b c d selection_persists [of 500 Refresh ?w ?es] show ?thesis by simp
qed

text \<open>
  C10. A fetch that fails (transport error, status outside 200-299, or a body that does
  not decode) changes the loading flag and the error message and nothing else: the
  collection of the last successful fetch stays in place.
\<close>

theorem failed_fetch_keeps_collection:
  assumes "network_failure r \<or> undecodable r"
  shows "apply_setters (fetchEarthquakes_settle r) (apply_setters fetchEarthquakes_start s)
           = s\<lparr>loading := False, error := failure_message\<rparr>
         \<and> earthquakes (apply_setters (fetchEarthquakes_settle r)
              (apply_setters fetchEarthquakes_start s)) = earthquakes s
         \<and> earthquakes (cells (step (Settle r) w)) = earthquakes (cells w)"
proof -
  have a: "apply_setters (fetchEarthquakes_settle r) (apply_setters fetchEarthquakes_start s)
           = s\<lparr>loading := False, error := failure_message\<rparr>"
    using settle_failure [OF assms]
    by (simp add: apply_setters_def fetchEarthquakes_start_def)
  have "earthquakes (cells (handle (Settle r) w)) = earthquakes (cells w)"
    using settle_failure [OF assms] by (simp add: apply_setters_def)
  then have b: "earthquakes (cells (step (Settle r) w)) = earthquakes (cells w)"
    by (simp add: step_def cells_commit)
  from a b show ?thesis by simp
qed

theorem failed_fetch_keeps_collection_witness:
  "(network_failure (Response 503 NotJson) \<or> undecodable (Response 503 NotJson))
   \<and> earthquakes (apply_setters (fetchEarthquakes_settle (Response 503 NotJson))
        (apply_setters fetchEarthquakes_start
           (cells (run [Settle (Response 200 (Features scenario_feed))] (mount 1024)))))
      = Array_sort compare_time scenario_feed"
proof -
  have h: "network_failure (Response 503 NotJson) \<or> undecodable (Response 503 NotJson)"
    by (simp add: ok_def)
  have "earthquakes (cells (run [Settle (Response 200 (Features scenario_feed))] (mount 1024)))
      = Array_sort compare_time scenario_feed"
    by (simp add: eval_defs)
  with h failed_fetch_keeps_collection [OF h,
      of "cells (run [Settle (Response 200 (Features scenario_feed))] (mount 1024))"]
  show ?thesis by simp
qed

end
